theory Spec2Isabelle
  imports Main "HOL-Library.Word" "HOL-Library.Monad_Syntax"
begin

section \<open>The host framework, as far as \<^verbatim>\<open>csrc/custom/custom.cpp\<close> uses it\<close>

text \<open>
  \<^verbatim>\<open>custom.cpp\<close> is a binding layer: two C++ functions over \<^verbatim>\<open>at::Tensor\<close> that
  hand raw pointers, dimensions and a stream to kernels defined elsewhere, and a pybind11
  module table. The embedding keeps the C++ types: \<^verbatim>\<open>int64_t\<close> shape entries are
  64-bit words, the kernels' \<^verbatim>\<open>int\<close> parameters are 32-bit words, a pointer is an
  address, \<^verbatim>\<open>cudaStream_t\<close> is a stream identifier.
\<close>

type_synonym int64_t = "64 word"
type_synonym int_t = "32 word"
type_synonym addr = "64 word"
type_synonym cudaStream_t = nat

text \<open>\<^verbatim>\<open>at::ScalarType\<close>, the element type of a tensor (\<^verbatim>\<open>at::kFloat\<close> is float32).\<close>

datatype ScalarType =
  kByte | kChar | kShort | kInt | kLong | kHalf | kFloat | kDouble | kBool | kBFloat16

text \<open>
  What a tensor handle refers to: its shape, its element type and the address of its
  buffer. An \<^verbatim>\<open>at::Tensor\<close> argument is a counted reference to such an object, so
  the functions below take handles and read the object in the state.
\<close>

record TensorImpl =
  sizes :: "int64_t list"
  dtype :: ScalarType
  data :: addr

type_synonym handle = nat

text \<open>
  The exceptions that can reach the caller: the index error of \<^verbatim>\<open>Tensor::size\<close>
  (dimension asked for, number of dimensions), the type error of the typed
  \<^verbatim>\<open>data_ptr<T>()\<close> (scalar type found), the \<^verbatim>\<open>std::invalid_argument\<close> of the
  size check that \<^verbatim>\<open>LLMM1\<close> has only as a comment, and the attribute error of the
  scripting layer for a name a module does not hold.
\<close>

datatype error =
    IndexError int nat
  | DtypeError ScalarType
  | invalid_argument string
  | AttributeError string

text \<open>
  The state a call runs in. \<open>tensors\<close> are the host's tensor objects, \<open>current_stream\<close>
  is the stream of the host's CUDA context, and \<open>device\<close> is everything an external
  kernel can act on (device memory, the streams' queues, the sticky CUDA error); its type
  is left open, since the kernels are not part of this file.
\<close>

record 'd state =
  tensors :: "handle \<Rightarrow> TensorImpl"
  current_stream :: cudaStream_t
  device :: 'd

subsection \<open>Accessors of \<^verbatim>\<open>at::Tensor\<close>\<close>

text \<open>
  ATen is a library \<^verbatim>\<open>custom.cpp\<close> includes, not a part of it. Each accessor the
  two functions call is written here as ATen defines it, with its check where it has one.
\<close>

text \<open>
  \<^verbatim>\<open>c10::maybe_wrap_dim(dim, ndim, /*wrap_scalar=*/false)\<close>, which \<^verbatim>\<open>Tensor::size\<close>
  calls: a dimension in \<open>[-ndim, ndim)\<close> is wrapped to \<open>[0, ndim)\<close>, anything else
  raises, and a tensor of no dimension has no valid dimension at all.
\<close>

definition maybe_wrap_dim :: "int \<Rightarrow> nat \<Rightarrow> error + nat" where
  "maybe_wrap_dim d ndim =
     (if - int ndim \<le> d \<and> d < int ndim
      then Inr (nat (if d < 0 then d + int ndim else d))
      else Inl (IndexError d ndim))"

text \<open>\<^verbatim>\<open>Tensor::size(int64_t dim)\<close>: the checked read of one shape entry.\<close>

definition tensor_size :: "TensorImpl \<Rightarrow> int \<Rightarrow> error + int64_t" where
  "tensor_size t d =
     (case maybe_wrap_dim d (length (sizes t)) of
        Inl e \<Rightarrow> Inl e
      | Inr i \<Rightarrow> Inr (sizes t ! i))"

text \<open>
  \<^verbatim>\<open>IntArrayRef::operator[]\<close>, the read behind \<^verbatim>\<open>matA_sizes[0]\<close>: it has no bounds
  check, so the language gives an out-of-range read no meaning; the model returns
  \<open>None\<close> there.
\<close>

definition ArrayRef_index :: "'a list \<Rightarrow> nat \<Rightarrow> 'a option" where
  "ArrayRef_index xs i = (if i < length xs then Some (xs ! i) else None)"

text \<open>\<^verbatim>\<open>Tensor::data_ptr()\<close>: the untyped buffer address, with no check.\<close>

definition data_ptr :: "TensorImpl \<Rightarrow> addr" where
  "data_ptr t = data t"

text \<open>
  \<^verbatim>\<open>Tensor::data_ptr<float>()\<close>: the buffer address as a \<^verbatim>\<open>float*\<close>, after the
  check that the tensor's scalar type is \<^verbatim>\<open>Float\<close>.
\<close>

definition data_ptr_float :: "TensorImpl \<Rightarrow> error + addr" where
  "data_ptr_float t = (if dtype t = kFloat then Inr (data t) else Inl (DtypeError (dtype t)))"

text \<open>\<^verbatim>\<open>Tensor::numel()\<close>: the number of elements, the product of the shape.\<close>

definition numel :: "TensorImpl \<Rightarrow> int" where
  "numel t = prod_list (map sint (sizes t))"

text \<open>\<^verbatim>\<open>at::cuda::getCurrentCUDAStream()\<close> reads the context's current stream.\<close>

definition getCurrentCUDAStream :: "'d state \<Rightarrow> cudaStream_t" where
  "getCurrentCUDAStream s = current_stream s"

text \<open>
  The implicit conversion of an \<^verbatim>\<open>int64_t\<close> to \<^verbatim>\<open>int\<close>, in \<^verbatim>\<open>int M = in_a.size(0)\<close>
  and where a shape entry is passed for an \<^verbatim>\<open>int\<close> parameter: the value of the
  narrower type that is congruent to the source modulo \<open>2 ^ 32\<close>.
\<close>

definition int_of_int64 :: "int64_t \<Rightarrow> int_t" where
  "int_of_int64 x = scast x"

section \<open>The external kernels\<close>

text \<open>
  \<^verbatim>\<open>LLGemm1\<close> and \<^verbatim>\<open>MMGPUKernel\<close> are only declared in \<^verbatim>\<open>custom.cpp\<close>. Each is a
  parameter of the function that calls it: some transformation of the device state,
  determined by the arguments of the call, in the declared order. Both return
  \<^verbatim>\<open>void\<close>, and a kernel is taken to be a function that returns. Both are declared
  as plain functions and are called outside any \<^verbatim>\<open>try\<close>, so an exception of a
  kernel's own would leave the caller as it is; that case is not part of the model, and
  nothing below speaks about it.
\<close>

type_synonym 'd LLGemm1_t =
  "addr \<Rightarrow> addr \<Rightarrow> addr \<Rightarrow> int_t \<Rightarrow> int_t \<Rightarrow> cudaStream_t \<Rightarrow> 'd \<Rightarrow> 'd"

type_synonym 'd MMGPUKernel_t =
  "addr \<Rightarrow> addr \<Rightarrow> addr \<Rightarrow> int_t \<Rightarrow> int_t \<Rightarrow> int_t \<Rightarrow> int_t \<Rightarrow> int_t \<Rightarrow> int_t \<Rightarrow>
   cudaStream_t \<Rightarrow> 'd \<Rightarrow> 'd"

section \<open>\<^verbatim>\<open>LLMM1\<close>\<close>

text \<open>
  \<^verbatim>\<open>
  void LLMM1(at::Tensor in_a, at::Tensor in_b, at::Tensor out_c) {
      int M = in_a.size(0);
      int K = in_a.size(1);
      //if (N != in_b.numel()) throw std::invalid_argument(...);
      //out_c.resize_({N});
      LLGemm1(in_a.data_ptr(), in_b.data_ptr(), out_c.data_ptr(), M, K,
              at::cuda::getCurrentCUDAStream());
  }
  \<close>
  The result is the exception that left the function, or \<open>()\<close>, with the state the
  function leaves behind. The two statements in comments are not part of the function.
\<close>

definition LLMM1 ::
  "'d LLGemm1_t \<Rightarrow> handle \<Rightarrow> handle \<Rightarrow> handle \<Rightarrow> 'd state \<Rightarrow> (error + unit) \<times> 'd state" where
  "LLMM1 LLGemm1 in_a in_b out_c s =
     (case tensor_size (tensors s in_a) 0 of
        Inl e \<Rightarrow> (Inl e, s)
      | Inr m \<Rightarrow>
          (let M = int_of_int64 m in
           case tensor_size (tensors s in_a) 1 of
             Inl e \<Rightarrow> (Inl e, s)
           | Inr k \<Rightarrow>
               (let K = int_of_int64 k in
                (Inr (),
                 s\<lparr>device :=
                     LLGemm1 (data_ptr (tensors s in_a)) (data_ptr (tensors s in_b))
                       (data_ptr (tensors s out_c)) M K (getCurrentCUDAStream s)
                       (device s)\<rparr>))))"

section \<open>\<^verbatim>\<open>MMCustomGPU\<close>\<close>

text \<open>
  \<^verbatim>\<open>
  void MMCustomGPU(at::Tensor in_a, at::Tensor in_b, at::Tensor out_c) {
      auto matA_sizes { in_a.sizes() };
      auto matB_sizes { in_b.sizes() };
      auto matO_sizes { out_c.sizes() };
      MMGPUKernel(in_a.data_ptr<float>(), in_b.data_ptr<float>(), out_c.data_ptr<float>(),
          matA_sizes[0], matA_sizes[1], matB_sizes[0], matB_sizes[1],
          matO_sizes[0], matO_sizes[1], at::cuda::getCurrentCUDAStream());
  }
  \<close>
  The arguments of a call are evaluated in an order the language leaves open. The six
  shape reads are unchecked, so with a tensor of fewer than two dimensions some allowed
  order performs an out-of-range read before anything else, and the call has no defined
  behaviour: the model returns \<open>None\<close>. Otherwise the result is as for \<open>LLMM1\<close>. The
  three typed pointer extractions are taken from right to left, \<open>out_c\<close> first, as the
  GNU compiler evaluates the arguments of a call; the order decides only which type
  error is reported when several tensors are not float-typed, and no statement below
  depends on it.
\<close>

definition MMCustomGPU ::
  "'d MMGPUKernel_t \<Rightarrow> handle \<Rightarrow> handle \<Rightarrow> handle \<Rightarrow> 'd state \<Rightarrow>
   ((error + unit) \<times> 'd state) option" where
  "MMCustomGPU MMGPUKernel in_a in_b out_c s =
     (let matA_sizes = sizes (tensors s in_a);
          matB_sizes = sizes (tensors s in_b);
          matO_sizes = sizes (tensors s out_c)
      in do {
        numARows \<leftarrow> ArrayRef_index matA_sizes 0;
        numAColumns \<leftarrow> ArrayRef_index matA_sizes 1;
        numBRows \<leftarrow> ArrayRef_index matB_sizes 0;
        numBColumns \<leftarrow> ArrayRef_index matB_sizes 1;
        numCRows \<leftarrow> ArrayRef_index matO_sizes 0;
        numCColumns \<leftarrow> ArrayRef_index matO_sizes 1;
        Some
          (case data_ptr_float (tensors s out_c) of
             Inl e \<Rightarrow> (Inl e, s)
           | Inr c \<Rightarrow>
               (case data_ptr_float (tensors s in_b) of
                  Inl e \<Rightarrow> (Inl e, s)
                | Inr b \<Rightarrow>
                    (case data_ptr_float (tensors s in_a) of
                       Inl e \<Rightarrow> (Inl e, s)
                     | Inr a \<Rightarrow>
                         (Inr (),
                          s\<lparr>device :=
                              MMGPUKernel a b c
                                (int_of_int64 numARows) (int_of_int64 numAColumns)
                                (int_of_int64 numBRows) (int_of_int64 numBColumns)
                                (int_of_int64 numCRows) (int_of_int64 numCColumns)
                                (getCurrentCUDAStream s) (device s)\<rparr>))))
      })"

section \<open>The extension module\<close>

text \<open>
  The native functions a module entry can point to, and a module of the scripting layer:
  its docstring and the callables bound to its names.
\<close>

datatype native_fn = LLMM1_fn | MMCustomGPU_fn

record py_module =
  doc :: string
  attrs :: "string \<rightharpoonup> native_fn"

text \<open>\<^verbatim>\<open>m.def(name, &f)\<close> binds \<open>name\<close> to \<open>f\<close> in the module.\<close>

definition def :: "string \<Rightarrow> native_fn \<Rightarrow> py_module \<Rightarrow> py_module" where
  "def name f m = m\<lparr>attrs := (attrs m)(name \<mapsto> f)\<rparr>"

text \<open>
  \<^verbatim>\<open>
  PYBIND11_MODULE(TORCH_EXTENSION_NAME, m){
      m.doc() = "pybind11 example plugin";
      m.def("LLMM1", &LLMM1);
  //m.def("MMCustomGPU", &MMCustomGPU);
  }
  \<close>
  The body runs once, on the module pybind11 has just created, which binds no callable.
\<close>

definition new_module :: py_module where
  "new_module = \<lparr>doc = [], attrs = Map.empty\<rparr>"

definition PYBIND11_MODULE :: "py_module \<Rightarrow> py_module" where
  "PYBIND11_MODULE m = def ''LLMM1'' LLMM1_fn (m\<lparr>doc := ''pybind11 example plugin''\<rparr>)"

definition extension_module :: py_module where
  "extension_module = PYBIND11_MODULE new_module"

text \<open>
  The scripting layer's attribute lookup, and a call \<^verbatim>\<open>module.name(in_a, in_b, out_c)\<close>
  from it: a name the module does not bind raises the attribute error before any native
  code runs; a bound name runs the native function it is bound to.
\<close>

definition getattr :: "py_module \<Rightarrow> string \<Rightarrow> error + native_fn" where
  "getattr m name = (case attrs m name of None \<Rightarrow> Inl (AttributeError name) | Some f \<Rightarrow> Inr f)"

definition call_attr ::
  "'d LLGemm1_t \<Rightarrow> 'd MMGPUKernel_t \<Rightarrow> py_module \<Rightarrow> string \<Rightarrow> handle \<Rightarrow> handle \<Rightarrow> handle \<Rightarrow>
   'd state \<Rightarrow> ((error + unit) \<times> 'd state) option" where
  "call_attr LLGemm1 MMGPUKernel m name in_a in_b out_c s =
     (case getattr m name of
        Inl e \<Rightarrow> Some (Inl e, s)
      | Inr LLMM1_fn \<Rightarrow> Some (LLMM1 LLGemm1 in_a in_b out_c s)
      | Inr MMCustomGPU_fn \<Rightarrow> MMCustomGPU MMGPUKernel in_a in_b out_c s)"

section \<open>Stub kernels\<close>

text \<open>
  For checks of the binding against a stub: the device state is the list of kernel calls
  made so far, and each stub appends the call it received, with its arguments.
\<close>

datatype kernel_call =
    LLGemm1_call addr addr addr int_t int_t cudaStream_t
  | MMGPUKernel_call addr addr addr int_t int_t int_t int_t int_t int_t cudaStream_t

definition stub_LLGemm1 :: "kernel_call list LLGemm1_t" where
  "stub_LLGemm1 a b c M K stream calls = calls @ [LLGemm1_call a b c M K stream]"

definition stub_MMGPUKernel :: "kernel_call list MMGPUKernel_t" where
  "stub_MMGPUKernel a b c ra ca rb cb rc cc stream calls =
     calls @ [MMGPUKernel_call a b c ra ca rb cb rc cc stream]"

text \<open>
  A state for concrete checks: tensor 0 has the shape given, tensors 1 and 2 are a
  \<open>[3, 5]\<close> and a \<open>[2, 5]\<close> tensor, every other handle is a scalar; all have the
  scalar type given; stream 7 is current and no kernel has been called.
\<close>

definition test_state :: "int64_t list \<Rightarrow> ScalarType \<Rightarrow> kernel_call list state" where
  "test_state shape ty =
     \<lparr>tensors = (\<lambda>h. if h = 0 then \<lparr>sizes = shape, dtype = ty, data = 4096\<rparr>
                      else if h = 1 then \<lparr>sizes = [3, 5], dtype = ty, data = 8192\<rparr>
                      else if h = 2 then \<lparr>sizes = [2, 5], dtype = ty, data = 12288\<rparr>
                      else \<lparr>sizes = [], dtype = ty, data = 0\<rparr>),
      current_stream = 7,
      device = []\<rparr>"

section \<open>Lemmas about the accessors and the two functions\<close>

lemma tensor_size_0: "1 \<le> length (sizes t) \<Longrightarrow> tensor_size t 0 = Inr (sizes t ! 0)"
  by (cases "sizes t") (simp_all add: tensor_size_def maybe_wrap_dim_def)

lemma tensor_size_1: "2 \<le> length (sizes t) \<Longrightarrow> tensor_size t 1 = Inr (sizes t ! 1)"
  by (simp add: tensor_size_def maybe_wrap_dim_def)

lemma tensor_size_1_fails:
  "length (sizes t) < 2 \<Longrightarrow> tensor_size t 1 = Inl (IndexError 1 (length (sizes t)))"
  by (simp add: tensor_size_def maybe_wrap_dim_def)

lemma LLMM1_reaches_kernel:
  assumes "2 \<le> length (sizes (tensors s in_a))"
  shows "LLMM1 gemm in_a in_b out_c s =
    (Inr (),
     s\<lparr>device :=
         gemm (data (tensors s in_a)) (data (tensors s in_b)) (data (tensors s out_c))
           (int_of_int64 (sizes (tensors s in_a) ! 0))
           (int_of_int64 (sizes (tensors s in_a) ! 1))
           (current_stream s) (device s)\<rparr>)"
  using assms
  by (simp add: LLMM1_def tensor_size_0 tensor_size_1 data_ptr_def getCurrentCUDAStream_def)

lemma LLMM1_lookup_fails:
  assumes "length (sizes (tensors s in_a)) < 2"
  shows "LLMM1 gemm in_a in_b out_c s =
    (Inl (IndexError (int (length (sizes (tensors s in_a)))) (length (sizes (tensors s in_a)))),
     s)"
proof (cases "sizes (tensors s in_a)")
  case Nil
  then show ?thesis
    by (simp add: LLMM1_def tensor_size_def maybe_wrap_dim_def)
next
  case (Cons x xs)
  with assms have "xs = []" by simp
  with Cons show ?thesis
    by (simp add: LLMM1_def tensor_size_def maybe_wrap_dim_def)
qed

lemma sint_int_of_int64: "sint (int_of_int64 x) = signed_take_bit 31 (sint x)"
proof -
  have "sint (word_of_int (sint x) :: 32 word) = signed_take_bit (LENGTH(32) - 1) (sint x)"
    by (rule sint_sbintrunc')
  then show ?thesis
    unfolding int_of_int64_def scast_eq by simp
qed

lemma sint_int_of_int64_in_range:
  assumes "- (2 ^ 31) \<le> sint x" and "sint x < 2 ^ 31"
  shows "sint (int_of_int64 x) = sint x"
  using assms by (simp add: sint_int_of_int64 signed_take_bit_int_eq_self)

lemma ArrayRef_index_in_range: "i < length xs \<Longrightarrow> ArrayRef_index xs i = Some (xs ! i)"
  by (simp add: ArrayRef_index_def)

lemma MMCustomGPU_defined:
  assumes "2 \<le> length (sizes (tensors s in_a))"
    and "2 \<le> length (sizes (tensors s in_b))"
    and "2 \<le> length (sizes (tensors s out_c))"
  shows "MMCustomGPU kern in_a in_b out_c s =
    Some
      (case data_ptr_float (tensors s out_c) of
         Inl e \<Rightarrow> (Inl e, s)
       | Inr c \<Rightarrow>
           (case data_ptr_float (tensors s in_b) of
              Inl e \<Rightarrow> (Inl e, s)
            | Inr b \<Rightarrow>
                (case data_ptr_float (tensors s in_a) of
                   Inl e \<Rightarrow> (Inl e, s)
                 | Inr a \<Rightarrow>
                     (Inr (),
                      s\<lparr>device :=
                          kern a b c
                            (int_of_int64 (sizes (tensors s in_a) ! 0))
                            (int_of_int64 (sizes (tensors s in_a) ! 1))
                            (int_of_int64 (sizes (tensors s in_b) ! 0))
                            (int_of_int64 (sizes (tensors s in_b) ! 1))
                            (int_of_int64 (sizes (tensors s out_c) ! 0))
                            (int_of_int64 (sizes (tensors s out_c) ! 1))
                            (current_stream s) (device s)\<rparr>))))"
proof -
  have "0 < length (sizes (tensors s in_a))" "Suc 0 < length (sizes (tensors s in_a))"
    "0 < length (sizes (tensors s in_b))" "Suc 0 < length (sizes (tensors s in_b))"
    "0 < length (sizes (tensors s out_c))" "Suc 0 < length (sizes (tensors s out_c))"
    using assms by auto
  then show ?thesis
    by (simp add: MMCustomGPU_def Let_def ArrayRef_index_in_range getCurrentCUDAStream_def
        split: sum.split)
qed

lemma MMCustomGPU_float:
  assumes "2 \<le> length (sizes (tensors s in_a))"
    and "2 \<le> length (sizes (tensors s in_b))"
    and "2 \<le> length (sizes (tensors s out_c))"
    and "dtype (tensors s in_a) = kFloat"
    and "dtype (tensors s in_b) = kFloat"
    and "dtype (tensors s out_c) = kFloat"
  shows "MMCustomGPU kern in_a in_b out_c s =
    Some
      (Inr (),
       s\<lparr>device :=
           kern (data (tensors s in_a)) (data (tensors s in_b)) (data (tensors s out_c))
             (int_of_int64 (sizes (tensors s in_a) ! 0))
             (int_of_int64 (sizes (tensors s in_a) ! 1))
             (int_of_int64 (sizes (tensors s in_b) ! 0))
             (int_of_int64 (sizes (tensors s in_b) ! 1))
             (int_of_int64 (sizes (tensors s out_c) ! 0))
             (int_of_int64 (sizes (tensors s out_c) ! 1))
             (current_stream s) (device s)\<rparr>)"
  using assms by (simp add: MMCustomGPU_defined data_ptr_float_def)

lemma MMCustomGPU_not_float:
  assumes "2 \<le> length (sizes (tensors s in_a))"
    and "2 \<le> length (sizes (tensors s in_b))"
    and "2 \<le> length (sizes (tensors s out_c))"
    and "\<not> (dtype (tensors s in_a) = kFloat \<and> dtype (tensors s in_b) = kFloat \<and>
            dtype (tensors s out_c) = kFloat)"
  shows "\<exists>h\<in>{in_a, in_b, out_c}.
           dtype (tensors s h) \<noteq> kFloat \<and>
           MMCustomGPU kern in_a in_b out_c s = Some (Inl (DtypeError (dtype (tensors s h))), s)"
proof (cases "dtype (tensors s out_c) = kFloat")
  case False
  with assms(1-3) show ?thesis by (simp add: MMCustomGPU_defined data_ptr_float_def)
next
  case c: True
  show ?thesis
  proof (cases "dtype (tensors s in_b) = kFloat")
    case False
    with c assms(1-3) show ?thesis by (simp add: MMCustomGPU_defined data_ptr_float_def)
  next
    case True
    with c assms(4) have "dtype (tensors s in_a) \<noteq> kFloat" by simp
    with c True assms(1-3) show ?thesis by (simp add: MMCustomGPU_defined data_ptr_float_def)
  qed
qed

lemma attrs_extension_module: "attrs extension_module = [''LLMM1'' \<mapsto> LLMM1_fn]"
  by (simp add: extension_module_def PYBIND11_MODULE_def def_def new_module_def)

lemma tensors_test_state:
  "tensors (test_state shape ty) 0 = \<lparr>sizes = shape, dtype = ty, data = 4096\<rparr>"
  "tensors (test_state shape ty) (Suc 0) = \<lparr>sizes = [3, 5], dtype = ty, data = 8192\<rparr>"
  "tensors (test_state shape ty) 2 = \<lparr>sizes = [2, 5], dtype = ty, data = 12288\<rparr>"
  "current_stream (test_state shape ty) = 7"
  "device (test_state shape ty) = []"
  by (simp_all add: test_state_def)

section \<open>The claims\<close>

subsection \<open>C1: what \<open>LLMM1\<close> forwards to \<open>LLGemm1\<close>\<close>

text \<open>
  C1, as amended. For every call \<open>LLMM1(in_a, in_b, out_c)\<close> where \<open>in_a\<close> has at least
  two dimensions, \<open>LLMM1\<close> calls \<open>LLGemm1\<close> once, with the raw data pointers of \<open>in_a\<close>,
  \<open>in_b\<close> and \<open>out_c\<close>, then \<open>M\<close> and \<open>K\<close>, then the current stream, in that order,
  where \<open>M\<close> and \<open>K\<close> are \<open>in_a.size(0)\<close> and \<open>in_a.size(1)\<close> converted to the 32-bit
  \<^verbatim>\<open>int\<close> of the kernel's signature. The value forwarded is the size itself whenever the
  size is below \<open>2 ^ 31\<close>.
\<close>

theorem LLMM1_forwards_M_K_as_int:
  "2 \<le> length (sizes (tensors s in_a)) \<longrightarrow>
     LLMM1 gemm in_a in_b out_c s =
       (Inr (),
        s\<lparr>device :=
            gemm (data (tensors s in_a)) (data (tensors s in_b)) (data (tensors s out_c))
              (int_of_int64 (sizes (tensors s in_a) ! 0))
              (int_of_int64 (sizes (tensors s in_a) ! 1))
              (current_stream s) (device s)\<rparr>) \<and>
     (0 \<le> sint (sizes (tensors s in_a) ! 0) \<and> sint (sizes (tensors s in_a) ! 0) < 2 ^ 31 \<longrightarrow>
        sint (int_of_int64 (sizes (tensors s in_a) ! 0)) = sint (sizes (tensors s in_a) ! 0)) \<and>
     (0 \<le> sint (sizes (tensors s in_a) ! 1) \<and> sint (sizes (tensors s in_a) ! 1) < 2 ^ 31 \<longrightarrow>
        sint (int_of_int64 (sizes (tensors s in_a) ! 1)) = sint (sizes (tensors s in_a) ! 1))"
proof (intro impI conjI)
  assume "2 \<le> length (sizes (tensors s in_a))"
  then show "LLMM1 gemm in_a in_b out_c s =
       (Inr (),
        s\<lparr>device :=
            gemm (data (tensors s in_a)) (data (tensors s in_b)) (data (tensors s out_c))
              (int_of_int64 (sizes (tensors s in_a) ! 0))
              (int_of_int64 (sizes (tensors s in_a) ! 1))
              (current_stream s) (device s)\<rparr>)"
    by (rule LLMM1_reaches_kernel)
next
  assume "0 \<le> sint (sizes (tensors s in_a) ! 0) \<and> sint (sizes (tensors s in_a) ! 0) < 2 ^ 31"
  then show "sint (int_of_int64 (sizes (tensors s in_a) ! 0)) = sint (sizes (tensors s in_a) ! 0)"
    by (intro sint_int_of_int64_in_range) simp_all
next
  assume "0 \<le> sint (sizes (tensors s in_a) ! 1) \<and> sint (sizes (tensors s in_a) ! 1) < 2 ^ 31"
  then show "sint (int_of_int64 (sizes (tensors s in_a) ! 1)) = sint (sizes (tensors s in_a) ! 1)"
    by (intro sint_int_of_int64_in_range) simp_all
qed

text \<open>The theorem at a \<open>[4, 8]\<close> tensor: the stub receives \<open>M = 4\<close> and \<open>K = 8\<close>.\<close>

theorem LLMM1_forwards_M_K_as_int_witness:
  "2 \<le> length (sizes (tensors (test_state [4, 8] kHalf) 0)) \<and>
   0 \<le> sint (sizes (tensors (test_state [4, 8] kHalf) 0) ! 0) \<and>
   sint (sizes (tensors (test_state [4, 8] kHalf) 0) ! 0) < 2 ^ 31 \<and>
   0 \<le> sint (sizes (tensors (test_state [4, 8] kHalf) 0) ! 1) \<and>
   sint (sizes (tensors (test_state [4, 8] kHalf) 0) ! 1) < 2 ^ 31 \<and>
   LLMM1 stub_LLGemm1 0 1 2 (test_state [4, 8] kHalf) =
     (Inr (), (test_state [4, 8] kHalf)\<lparr>device := [LLGemm1_call 4096 8192 12288 4 8 7]\<rparr>) \<and>
   sint (int_of_int64 4) = 4 \<and> sint (int_of_int64 8) = 8"
  using LLMM1_forwards_M_K_as_int
    [where s = "test_state [4, 8] kHalf" and in_a = 0 and in_b = 1 and out_c = 2
       and gemm = stub_LLGemm1]
  by (simp add: tensors_test_state stub_LLGemm1_def int_of_int64_def)

text \<open>
  C1 as stated fails: for an \<open>in_a\<close> of shape \<open>[2147483648, 0]\<close> (no element, so no
  buffer is needed) \<open>in_a.size(0)\<close> is \<open>2147483648\<close>, and the stub receives the
  \<^verbatim>\<open>int\<close> \<open>-2147483648\<close> as \<open>M\<close>.
\<close>

theorem LLMM1_forwards_M_K_counterexample:
  "LLMM1 stub_LLGemm1 0 1 2 (test_state [2147483648, 0] kHalf) =
     (Inr (),
      (test_state [2147483648, 0] kHalf)
        \<lparr>device := [LLGemm1_call 4096 8192 12288 2147483648 0 7]\<rparr>) \<and>
   tensor_size (tensors (test_state [2147483648, 0] kHalf) 0) 0 = Inr 2147483648 \<and>
   sint (2147483648 :: int_t) = - 2147483648 \<and>
   sint (2147483648 :: int64_t) = 2147483648"
  by (simp add: LLMM1_def test_state_def tensor_size_def maybe_wrap_dim_def stub_LLGemm1_def
      data_ptr_def getCurrentCUDAStream_def int_of_int64_def)

subsection \<open>C2: the module table\<close>

text \<open>
  C2. The extension module binds exactly one callable, named \<open>LLMM1\<close>, to the native
  function \<open>LLMM1\<close>: a call of that attribute runs \<open>LLMM1\<close>. \<open>MMCustomGPU\<close> is not bound,
  so looking the name up, and hence calling it, fails with the scripting layer's
  not-found error, for every argument and every state, before any native code runs.
\<close>

theorem extension_module_binds_LLMM1_only:
  "dom (attrs extension_module) = {''LLMM1''} \<and>
   getattr extension_module ''LLMM1'' = Inr LLMM1_fn \<and>
   call_attr gemm kern extension_module ''LLMM1'' in_a in_b out_c s =
     Some (LLMM1 gemm in_a in_b out_c s) \<and>
   getattr extension_module ''MMCustomGPU'' = Inl (AttributeError ''MMCustomGPU'') \<and>
   call_attr gemm kern extension_module ''MMCustomGPU'' in_a in_b out_c s =
     Some (Inl (AttributeError ''MMCustomGPU''), s)"
  by (simp add: attrs_extension_module getattr_def call_attr_def)


subsection \<open>C3: no validation in \<open>LLMM1\<close>\<close>

text \<open>
  C3, as amended. \<open>LLMM1\<close> performs no validation of its own. What it returns and what
  it does to the device do not depend on the shape of \<open>in_b\<close> (a tensor other than
  \<open>in_a\<close>), so no element count of \<open>in_b\<close> is compared with anything; and for every
  \<open>in_a\<close> of at least two dimensions it proceeds to the kernel call, whatever \<open>in_b\<close> and
  \<open>out_c\<close> are.
\<close>

theorem LLMM1_no_check_of_in_b:
  "(in_b \<noteq> in_a \<longrightarrow>
      fst (LLMM1 gemm in_a in_b out_c
             (s\<lparr>tensors := (tensors s)(in_b := (tensors s in_b)\<lparr>sizes := shape\<rparr>)\<rparr>)) =
        fst (LLMM1 gemm in_a in_b out_c s) \<and>
      device (snd (LLMM1 gemm in_a in_b out_c
             (s\<lparr>tensors := (tensors s)(in_b := (tensors s in_b)\<lparr>sizes := shape\<rparr>)\<rparr>))) =
        device (snd (LLMM1 gemm in_a in_b out_c s))) \<and>
   (2 \<le> length (sizes (tensors s in_a)) \<longrightarrow>
      fst (LLMM1 gemm in_a in_b out_c s) = Inr () \<and>
      device (snd (LLMM1 gemm in_a in_b out_c s)) =
        gemm (data (tensors s in_a)) (data (tensors s in_b)) (data (tensors s out_c))
          (int_of_int64 (sizes (tensors s in_a) ! 0))
          (int_of_int64 (sizes (tensors s in_a) ! 1))
          (current_stream s) (device s))"
proof (intro conjI impI)
  let ?s' = "s\<lparr>tensors := (tensors s)(in_b := (tensors s in_b)\<lparr>sizes := shape\<rparr>)\<rparr>"
  assume neq: "in_b \<noteq> in_a"
  then have same: "tensors ?s' in_a = tensors s in_a" by simp
  show "fst (LLMM1 gemm in_a in_b out_c ?s') = fst (LLMM1 gemm in_a in_b out_c s)"
  proof (cases "2 \<le> length (sizes (tensors s in_a))")
    case True
    with same show ?thesis by (simp add: LLMM1_reaches_kernel)
  next
    case False
    then have "length (sizes (tensors s in_a)) < 2" by simp
    with same show ?thesis by (simp add: LLMM1_lookup_fails)
  qed
  show "device (snd (LLMM1 gemm in_a in_b out_c ?s')) =
        device (snd (LLMM1 gemm in_a in_b out_c s))"
  proof (cases "2 \<le> length (sizes (tensors s in_a))")
    case True
    with same neq show ?thesis by (simp add: LLMM1_reaches_kernel)
  next
    case False
    then have "length (sizes (tensors s in_a)) < 2" by simp
    with same show ?thesis by (simp add: LLMM1_lookup_fails)
  qed
next
  assume "2 \<le> length (sizes (tensors s in_a))"
  then show "fst (LLMM1 gemm in_a in_b out_c s) = Inr ()"
    by (simp add: LLMM1_reaches_kernel)
next
  assume "2 \<le> length (sizes (tensors s in_a))"
  then show "device (snd (LLMM1 gemm in_a in_b out_c s)) =
        gemm (data (tensors s in_a)) (data (tensors s in_b)) (data (tensors s out_c))
          (int_of_int64 (sizes (tensors s in_a) ! 0))
          (int_of_int64 (sizes (tensors s in_a) ! 1))
          (current_stream s) (device s)"
    by (simp add: LLMM1_reaches_kernel)
qed

text \<open>
  The theorem at tensors whose element counts differ (32 and 15), and again after the
  shape of \<open>in_b\<close> is replaced by \<open>[9, 9, 9]\<close>: the same kernel call both times.
\<close>

theorem LLMM1_no_check_of_in_b_witness:
  "(1 :: handle) \<noteq> 0 \<and>
   2 \<le> length (sizes (tensors (test_state [4, 8] kHalf) 0)) \<and>
   numel (tensors (test_state [4, 8] kHalf) 0) = 32 \<and>
   numel (tensors (test_state [4, 8] kHalf) 1) = 15 \<and>
   fst (LLMM1 stub_LLGemm1 0 1 2
          ((test_state [4, 8] kHalf)
             \<lparr>tensors := (tensors (test_state [4, 8] kHalf))
                (1 := (tensors (test_state [4, 8] kHalf) 1)\<lparr>sizes := [9, 9, 9]\<rparr>)\<rparr>)) = Inr () \<and>
   device (snd (LLMM1 stub_LLGemm1 0 1 2
          ((test_state [4, 8] kHalf)
             \<lparr>tensors := (tensors (test_state [4, 8] kHalf))
                (1 := (tensors (test_state [4, 8] kHalf) 1)\<lparr>sizes := [9, 9, 9]\<rparr>)\<rparr>))) =
     [LLGemm1_call 4096 8192 12288 4 8 7] \<and>
   fst (LLMM1 stub_LLGemm1 0 1 2 (test_state [4, 8] kHalf)) = Inr () \<and>
   device (snd (LLMM1 stub_LLGemm1 0 1 2 (test_state [4, 8] kHalf))) =
     [LLGemm1_call 4096 8192 12288 4 8 7]"
  using LLMM1_no_check_of_in_b
    [where s = "test_state [4, 8] kHalf" and in_a = 0 and in_b = 1 and out_c = 2
       and gemm = stub_LLGemm1 and shape = "[9, 9, 9]"]
  by (simp add: tensors_test_state stub_LLGemm1_def int_of_int64_def numel_def)

text \<open>
  C3 as stated fails: the kernel call is not unconditional. For a one-dimensional \<open>in_a\<close>
  of shape \<open>[15]\<close>, whose element count even equals that of \<open>in_b\<close>, the lookup of
  dimension 1 raises and no kernel call is made.
\<close>

theorem LLMM1_unconditional_call_counterexample:
  "LLMM1 stub_LLGemm1 0 1 2 (test_state [15] kHalf) =
     (Inl (IndexError 1 1), test_state [15] kHalf) \<and>
   device (test_state [15] kHalf) = [] \<and>
   numel (tensors (test_state [15] kHalf) 0) = numel (tensors (test_state [15] kHalf) 1)"
  by (simp add: LLMM1_def test_state_def tensor_size_def maybe_wrap_dim_def numel_def)

subsection \<open>C4: the exceptions that leave the binding\<close>

text \<open>
  C4, as amended. Neither function raises anything of its own: the
  \<^verbatim>\<open>std::invalid_argument\<close> of the disabled check never leaves \<open>LLMM1\<close>, and neither
  function checks the other tensors' shapes, a pointer or the outcome of the kernel. Up
  to the kernel call, the exceptions that leave them are those of the host accessors
  they call, raised at once and with no kernel call made. \<open>LLMM1\<close> ends in the index
  error of \<^verbatim>\<open>size\<close>, in the state it was called in, when \<open>in_a\<close> has fewer than two
  dimensions; otherwise it calls \<open>LLGemm1\<close> and returns when the kernel returns.
  \<open>MMCustomGPU\<close>, on tensors of at least two dimensions, ends in the type error of
  \<^verbatim>\<open>data_ptr<float>\<close>, in the state it was called in, when one of the tensors is not
  float-typed; otherwise it calls \<open>MMGPUKernel\<close> and returns when the kernel returns.
\<close>

theorem binding_exceptions_are_the_accessors:
  "LLMM1 gemm in_a in_b out_c s =
     (if 2 \<le> length (sizes (tensors s in_a))
      then (Inr (),
            s\<lparr>device :=
                gemm (data (tensors s in_a)) (data (tensors s in_b)) (data (tensors s out_c))
                  (int_of_int64 (sizes (tensors s in_a) ! 0))
                  (int_of_int64 (sizes (tensors s in_a) ! 1))
                  (current_stream s) (device s)\<rparr>)
      else (Inl (IndexError (int (length (sizes (tensors s in_a))))
                   (length (sizes (tensors s in_a)))), s)) \<and>
   fst (LLMM1 gemm in_a in_b out_c s) \<noteq> Inl (invalid_argument msg) \<and>
   (2 \<le> length (sizes (tensors s in_a)) \<and> 2 \<le> length (sizes (tensors s in_b)) \<and>
    2 \<le> length (sizes (tensors s out_c)) \<longrightarrow>
      (dtype (tensors s in_a) = kFloat \<and> dtype (tensors s in_b) = kFloat \<and>
       dtype (tensors s out_c) = kFloat \<longrightarrow>
         MMCustomGPU kern in_a in_b out_c s =
           Some
             (Inr (),
              s\<lparr>device :=
                  kern (data (tensors s in_a)) (data (tensors s in_b))
                    (data (tensors s out_c))
                    (int_of_int64 (sizes (tensors s in_a) ! 0))
                    (int_of_int64 (sizes (tensors s in_a) ! 1))
                    (int_of_int64 (sizes (tensors s in_b) ! 0))
                    (int_of_int64 (sizes (tensors s in_b) ! 1))
                    (int_of_int64 (sizes (tensors s out_c) ! 0))
                    (int_of_int64 (sizes (tensors s out_c) ! 1))
                    (current_stream s) (device s)\<rparr>)) \<and>
      (\<not> (dtype (tensors s in_a) = kFloat \<and> dtype (tensors s in_b) = kFloat \<and>
          dtype (tensors s out_c) = kFloat) \<longrightarrow>
         (\<exists>h\<in>{in_a, in_b, out_c}.
            dtype (tensors s h) \<noteq> kFloat \<and>
            MMCustomGPU kern in_a in_b out_c s =
              Some (Inl (DtypeError (dtype (tensors s h))), s))))"
proof (intro conjI impI)
  show a: "LLMM1 gemm in_a in_b out_c s =
     (if 2 \<le> length (sizes (tensors s in_a))
      then (Inr (),
            s\<lparr>device :=
                gemm (data (tensors s in_a)) (data (tensors s in_b)) (data (tensors s out_c))
                  (int_of_int64 (sizes (tensors s in_a) ! 0))
                  (int_of_int64 (sizes (tensors s in_a) ! 1))
                  (current_stream s) (device s)\<rparr>)
      else (Inl (IndexError (int (length (sizes (tensors s in_a))))
                   (length (sizes (tensors s in_a)))), s))"
  proof (cases "2 \<le> length (sizes (tensors s in_a))")
    case True
    then show ?thesis by (simp add: LLMM1_reaches_kernel)
  next
    case False
    then have "length (sizes (tensors s in_a)) < 2" by simp
    with False show ?thesis by (simp add: LLMM1_lookup_fails)
  qed
  show "fst (LLMM1 gemm in_a in_b out_c s) \<noteq> Inl (invalid_argument msg)"
    unfolding a by simp
next
  assume "2 \<le> length (sizes (tensors s in_a)) \<and> 2 \<le> length (sizes (tensors s in_b)) \<and>
    2 \<le> length (sizes (tensors s out_c))"
    and "dtype (tensors s in_a) = kFloat \<and> dtype (tensors s in_b) = kFloat \<and>
       dtype (tensors s out_c) = kFloat"
  then show "MMCustomGPU kern in_a in_b out_c s =
           Some
             (Inr (),
              s\<lparr>device :=
                  kern (data (tensors s in_a)) (data (tensors s in_b))
                    (data (tensors s out_c))
                    (int_of_int64 (sizes (tensors s in_a) ! 0))
                    (int_of_int64 (sizes (tensors s in_a) ! 1))
                    (int_of_int64 (sizes (tensors s in_b) ! 0))
                    (int_of_int64 (sizes (tensors s in_b) ! 1))
                    (int_of_int64 (sizes (tensors s out_c) ! 0))
                    (int_of_int64 (sizes (tensors s out_c) ! 1))
                    (current_stream s) (device s)\<rparr>)"
    by (intro MMCustomGPU_float) simp_all
next
  assume "2 \<le> length (sizes (tensors s in_a)) \<and> 2 \<le> length (sizes (tensors s in_b)) \<and>
    2 \<le> length (sizes (tensors s out_c))"
    and "\<not> (dtype (tensors s in_a) = kFloat \<and> dtype (tensors s in_b) = kFloat \<and>
          dtype (tensors s out_c) = kFloat)"
  then show "\<exists>h\<in>{in_a, in_b, out_c}.
            dtype (tensors s h) \<noteq> kFloat \<and>
            MMCustomGPU kern in_a in_b out_c s =
              Some (Inl (DtypeError (dtype (tensors s h))), s)"
    by (intro MMCustomGPU_not_float) simp_all
qed

text \<open>
  The theorem at three float tensors, where each function makes its kernel call and
  returns, at three \<^verbatim>\<open>Int\<close> tensors, where \<open>MMCustomGPU\<close> ends in the type error, and
  at a one-dimensional \<open>in_a\<close>, where \<open>LLMM1\<close> ends in the index error; in both errors
  the stub has recorded no call.
\<close>

theorem binding_exceptions_are_the_accessors_witness:
  "2 \<le> length (sizes (tensors (test_state [4, 3] kFloat) 0)) \<and>
   2 \<le> length (sizes (tensors (test_state [4, 3] kFloat) 1)) \<and>
   2 \<le> length (sizes (tensors (test_state [4, 3] kFloat) 2)) \<and>
   dtype (tensors (test_state [4, 3] kFloat) 0) = kFloat \<and>
   dtype (tensors (test_state [4, 3] kFloat) 1) = kFloat \<and>
   dtype (tensors (test_state [4, 3] kFloat) 2) = kFloat \<and>
   LLMM1 stub_LLGemm1 0 1 2 (test_state [4, 3] kFloat) =
     (Inr (),
      (test_state [4, 3] kFloat)\<lparr>device := [LLGemm1_call 4096 8192 12288 4 3 7]\<rparr>) \<and>
   MMCustomGPU stub_MMGPUKernel 0 1 2 (test_state [4, 3] kFloat) =
     Some (Inr (),
       (test_state [4, 3] kFloat)
         \<lparr>device := [MMGPUKernel_call 4096 8192 12288 4 3 3 5 2 5 7]\<rparr>) \<and>
   2 \<le> length (sizes (tensors (test_state [4, 3] kInt) 0)) \<and>
   2 \<le> length (sizes (tensors (test_state [4, 3] kInt) 1)) \<and>
   2 \<le> length (sizes (tensors (test_state [4, 3] kInt) 2)) \<and>
   dtype (tensors (test_state [4, 3] kInt) 0) \<noteq> kFloat \<and>
   MMCustomGPU stub_MMGPUKernel 0 1 2 (test_state [4, 3] kInt) =
     Some (Inl (DtypeError kInt), test_state [4, 3] kInt) \<and>
   LLMM1 stub_LLGemm1 0 1 2 (test_state [4] kFloat) =
     (Inl (IndexError 1 1), test_state [4] kFloat) \<and>
   device (test_state [4, 3] kInt) = [] \<and> device (test_state [4] kFloat) = []"
  using binding_exceptions_are_the_accessors
    [where s = "test_state [4, 3] kFloat" and in_a = 0 and in_b = 1 and out_c = 2
       and gemm = stub_LLGemm1 and kern = stub_MMGPUKernel]
    binding_exceptions_are_the_accessors
    [where s = "test_state [4, 3] kInt" and in_a = 0 and in_b = 1 and out_c = 2
       and gemm = stub_LLGemm1 and kern = stub_MMGPUKernel]
    binding_exceptions_are_the_accessors
    [where s = "test_state [4] kFloat" and in_a = 0 and in_b = 1 and out_c = 2
       and gemm = stub_LLGemm1 and kern = stub_MMGPUKernel]
  by (auto simp add: tensors_test_state stub_LLGemm1_def stub_MMGPUKernel_def
      int_of_int64_def)

text \<open>
  C4 as stated fails: a call of \<open>LLMM1\<close> on a zero-dimensional \<open>in_a\<close> ends in an
  exception, raised at once rather than later, and so does a call of \<open>MMCustomGPU\<close> on
  half-precision tensors.
\<close>

theorem binding_never_throws_counterexample:
  "LLMM1 stub_LLGemm1 0 1 2 (test_state [] kFloat) =
     (Inl (IndexError 0 0), test_state [] kFloat) \<and>
   MMCustomGPU stub_MMGPUKernel 0 1 2 (test_state [4, 3] kHalf) =
     Some (Inl (DtypeError kHalf), test_state [4, 3] kHalf)"
  by (simp add: LLMM1_def MMCustomGPU_def test_state_def tensor_size_def maybe_wrap_dim_def
      ArrayRef_index_def data_ptr_float_def)

subsection \<open>C5: the kernel call in \<open>MMCustomGPU\<close>\<close>

text \<open>
  C5, as amended. The call of \<open>MMGPUKernel\<close> in the body of \<open>MMCustomGPU\<close> is not in a
  comment: for every call of \<open>MMCustomGPU\<close> on float tensors of at least two dimensions
  its body makes exactly one kernel call, which the stub records. What is in a comment is
  the registration of \<open>MMCustomGPU\<close>: the module has no such name.
\<close>

theorem MMCustomGPU_kernel_call_is_live:
  "2 \<le> length (sizes (tensors s in_a)) \<and> 2 \<le> length (sizes (tensors s in_b)) \<and>
   2 \<le> length (sizes (tensors s out_c)) \<and>
   dtype (tensors s in_a) = kFloat \<and> dtype (tensors s in_b) = kFloat \<and>
   dtype (tensors s out_c) = kFloat \<longrightarrow>
     (\<exists>call. MMCustomGPU stub_MMGPUKernel in_a in_b out_c s =
               Some (Inr (), s\<lparr>device := device s @ [call]\<rparr>)) \<and>
     attrs extension_module ''MMCustomGPU'' = None"
  by (auto simp add: MMCustomGPU_float stub_MMGPUKernel_def attrs_extension_module)

text \<open>The theorem at three float matrices: one call is recorded.\<close>

theorem MMCustomGPU_kernel_call_is_live_witness:
  "2 \<le> length (sizes (tensors (test_state [4, 3] kFloat) 0)) \<and>
   2 \<le> length (sizes (tensors (test_state [4, 3] kFloat) 1)) \<and>
   2 \<le> length (sizes (tensors (test_state [4, 3] kFloat) 2)) \<and>
   dtype (tensors (test_state [4, 3] kFloat) 0) = kFloat \<and>
   dtype (tensors (test_state [4, 3] kFloat) 1) = kFloat \<and>
   dtype (tensors (test_state [4, 3] kFloat) 2) = kFloat \<and>
   (\<exists>call. MMCustomGPU stub_MMGPUKernel 0 1 2 (test_state [4, 3] kFloat) =
      Some (Inr (), (test_state [4, 3] kFloat)\<lparr>device := [call]\<rparr>))"
  using MMCustomGPU_kernel_call_is_live
    [where s = "test_state [4, 3] kFloat" and in_a = 0 and in_b = 1 and out_c = 2]
  by (simp add: tensors_test_state)

text \<open>
  C5 as stated fails: on float tensors of shapes \<open>[4, 3]\<close>, \<open>[3, 5]\<close> and \<open>[2, 5]\<close>,
  with no kernel call made before, the body of \<open>MMCustomGPU\<close> makes this kernel call.
\<close>

theorem MMCustomGPU_no_kernel_call_counterexample:
  "MMCustomGPU stub_MMGPUKernel 0 1 2 (test_state [4, 3] kFloat) =
     Some (Inr (),
       (test_state [4, 3] kFloat)
         \<lparr>device := [MMGPUKernel_call 4096 8192 12288 4 3 3 5 2 5 7]\<rparr>) \<and>
   device (test_state [4, 3] kFloat) = []"
  by (simp add: MMCustomGPU_def test_state_def ArrayRef_index_def data_ptr_float_def
      stub_MMGPUKernel_def getCurrentCUDAStream_def int_of_int64_def)


subsection \<open>C6: what \<open>MMCustomGPU\<close> forwards to \<open>MMGPUKernel\<close>\<close>

text \<open>
  C6, as amended. For every call \<open>MMCustomGPU(in_a, in_b, out_c)\<close> with all three tensors
  two-dimensional and float-typed, \<open>MMCustomGPU\<close> calls \<open>MMGPUKernel\<close> with the three
  typed pointers, then six dimensions in the order rows and columns of \<open>in_a\<close>, of \<open>in_b\<close>,
  of \<open>out_c\<close>, and finally the current stream. Each dimension is the shape entry
  converted to the 32-bit \<^verbatim>\<open>int\<close> of the kernel's signature, which is the entry
  itself whenever the entry is below \<open>2 ^ 31\<close>.
\<close>

theorem MMCustomGPU_forwards_dimensions_as_int:
  "length (sizes (tensors s in_a)) = 2 \<and> length (sizes (tensors s in_b)) = 2 \<and>
   length (sizes (tensors s out_c)) = 2 \<and>
   dtype (tensors s in_a) = kFloat \<and> dtype (tensors s in_b) = kFloat \<and>
   dtype (tensors s out_c) = kFloat \<longrightarrow>
     MMCustomGPU kern in_a in_b out_c s =
       Some
         (Inr (),
          s\<lparr>device :=
              kern (data (tensors s in_a)) (data (tensors s in_b)) (data (tensors s out_c))
                (int_of_int64 (sizes (tensors s in_a) ! 0))
                (int_of_int64 (sizes (tensors s in_a) ! 1))
                (int_of_int64 (sizes (tensors s in_b) ! 0))
                (int_of_int64 (sizes (tensors s in_b) ! 1))
                (int_of_int64 (sizes (tensors s out_c) ! 0))
                (int_of_int64 (sizes (tensors s out_c) ! 1))
                (current_stream s) (device s)\<rparr>) \<and>
     (\<forall>h\<in>{in_a, in_b, out_c}. \<forall>i\<in>{0, 1}.
        0 \<le> sint (sizes (tensors s h) ! i) \<and> sint (sizes (tensors s h) ! i) < 2 ^ 31 \<longrightarrow>
          sint (int_of_int64 (sizes (tensors s h) ! i)) = sint (sizes (tensors s h) ! i))"
proof (intro impI conjI ballI)
  assume "length (sizes (tensors s in_a)) = 2 \<and> length (sizes (tensors s in_b)) = 2 \<and>
   length (sizes (tensors s out_c)) = 2 \<and>
   dtype (tensors s in_a) = kFloat \<and> dtype (tensors s in_b) = kFloat \<and>
   dtype (tensors s out_c) = kFloat"
  then show "MMCustomGPU kern in_a in_b out_c s =
       Some
         (Inr (),
          s\<lparr>device :=
              kern (data (tensors s in_a)) (data (tensors s in_b)) (data (tensors s out_c))
                (int_of_int64 (sizes (tensors s in_a) ! 0))
                (int_of_int64 (sizes (tensors s in_a) ! 1))
                (int_of_int64 (sizes (tensors s in_b) ! 0))
                (int_of_int64 (sizes (tensors s in_b) ! 1))
                (int_of_int64 (sizes (tensors s out_c) ! 0))
                (int_of_int64 (sizes (tensors s out_c) ! 1))
                (current_stream s) (device s)\<rparr>)"
    by (intro MMCustomGPU_float) simp_all
next
  fix h :: handle and i :: nat
  assume "0 \<le> sint (sizes (tensors s h) ! i) \<and> sint (sizes (tensors s h) ! i) < 2 ^ 31"
  then show "sint (int_of_int64 (sizes (tensors s h) ! i)) = sint (sizes (tensors s h) ! i)"
    by (intro sint_int_of_int64_in_range) simp_all
qed

text \<open>The theorem at shapes \<open>[4, 3]\<close>, \<open>[3, 5]\<close> and \<open>[2, 5]\<close>.\<close>

theorem MMCustomGPU_forwards_dimensions_as_int_witness:
  "length (sizes (tensors (test_state [4, 3] kFloat) 0)) = 2 \<and>
   length (sizes (tensors (test_state [4, 3] kFloat) 1)) = 2 \<and>
   length (sizes (tensors (test_state [4, 3] kFloat) 2)) = 2 \<and>
   dtype (tensors (test_state [4, 3] kFloat) 0) = kFloat \<and>
   dtype (tensors (test_state [4, 3] kFloat) 1) = kFloat \<and>
   dtype (tensors (test_state [4, 3] kFloat) 2) = kFloat \<and>
   MMCustomGPU stub_MMGPUKernel 0 1 2 (test_state [4, 3] kFloat) =
     Some (Inr (),
       (test_state [4, 3] kFloat)
         \<lparr>device := [MMGPUKernel_call 4096 8192 12288 4 3 3 5 2 5 7]\<rparr>) \<and>
   sint (int_of_int64 (sizes (tensors (test_state [4, 3] kFloat) 0) ! 0)) = 4 \<and>
   sint (int_of_int64 (sizes (tensors (test_state [4, 3] kFloat) 2) ! 1)) = 5"
  using MMCustomGPU_forwards_dimensions_as_int
    [where s = "test_state [4, 3] kFloat" and in_a = 0 and in_b = 1 and out_c = 2
       and kern = stub_MMGPUKernel]
  by (simp add: tensors_test_state stub_MMGPUKernel_def int_of_int64_def)

text \<open>
  C6 as stated fails, as C1 does: for a two-dimensional float \<open>in_a\<close> of shape
  \<open>[2147483648, 0]\<close> the number of rows is \<open>2147483648\<close>, and the stub receives the
  \<^verbatim>\<open>int\<close> \<open>-2147483648\<close> for it.
\<close>

theorem MMCustomGPU_forwards_dimensions_counterexample:
  "length (sizes (tensors (test_state [2147483648, 0] kFloat) 0)) = 2 \<and>
   dtype (tensors (test_state [2147483648, 0] kFloat) 0) = kFloat \<and>
   sizes (tensors (test_state [2147483648, 0] kFloat) 0) ! 0 = 2147483648 \<and>
   MMCustomGPU stub_MMGPUKernel 0 1 2 (test_state [2147483648, 0] kFloat) =
     Some (Inr (),
       (test_state [2147483648, 0] kFloat)
         \<lparr>device := [MMGPUKernel_call 4096 8192 12288 2147483648 0 3 5 2 5 7]\<rparr>) \<and>
   sint (2147483648 :: int_t) = - 2147483648 \<and>
   sint (2147483648 :: int64_t) = 2147483648"
  by (simp add: MMCustomGPU_def test_state_def ArrayRef_index_def data_ptr_float_def
      stub_MMGPUKernel_def getCurrentCUDAStream_def int_of_int64_def)

subsection \<open>C7: what \<open>LLMM1\<close> leaves unchanged\<close>

text \<open>
  C7. \<open>LLMM1\<close> returns no value, and the state it leaves is the state it was called in,
  except for what the external kernel does to the device: the tensor objects (shapes,
  scalar types and buffer addresses of \<open>in_a\<close>, \<open>in_b\<close>, \<open>out_c\<close> and of every other
  tensor) and the current stream are as before, nothing is added to the state, and with a
  kernel that leaves the device alone the whole state is as before.
\<close>

theorem LLMM1_frame:
  "snd (LLMM1 gemm in_a in_b out_c s) =
     (if 2 \<le> length (sizes (tensors s in_a))
      then s\<lparr>device :=
               gemm (data (tensors s in_a)) (data (tensors s in_b)) (data (tensors s out_c))
                 (int_of_int64 (sizes (tensors s in_a) ! 0))
                 (int_of_int64 (sizes (tensors s in_a) ! 1))
                 (current_stream s) (device s)\<rparr>
      else s) \<and>
   tensors (snd (LLMM1 gemm in_a in_b out_c s)) = tensors s \<and>
   current_stream (snd (LLMM1 gemm in_a in_b out_c s)) = current_stream s \<and>
   snd (LLMM1 (\<lambda>a b c M K stream d. d) in_a in_b out_c s) = s"
proof (cases "2 \<le> length (sizes (tensors s in_a))")
  case True
  then show ?thesis by (simp add: LLMM1_reaches_kernel)
next
  case False
  then have "length (sizes (tensors s in_a)) < 2" by simp
  with False show ?thesis by (simp add: LLMM1_lookup_fails)
qed

subsection \<open>C9: the dimensions of \<open>in_a\<close>\<close>

text \<open>
  C9. When \<open>in_a\<close> has at least two dimensions, \<open>in_a.size(0)\<close> and \<open>in_a.size(1)\<close> are
  in bounds, each returns the shape entry, and \<open>LLMM1\<close> does not end in an error. When
  \<open>in_a\<close> has fewer than two dimensions, the lookup of dimension 1 fails, and \<open>LLMM1\<close>
  ends in the index error with the state it was called in: no kernel has been called,
  whatever the kernel is.
\<close>

theorem LLMM1_needs_two_dimensions:
  "(2 \<le> length (sizes (tensors s in_a)) \<longrightarrow>
      tensor_size (tensors s in_a) 0 = Inr (sizes (tensors s in_a) ! 0) \<and>
      tensor_size (tensors s in_a) 1 = Inr (sizes (tensors s in_a) ! 1) \<and>
      fst (LLMM1 gemm in_a in_b out_c s) = Inr ()) \<and>
   (length (sizes (tensors s in_a)) < 2 \<longrightarrow>
      tensor_size (tensors s in_a) 1 = Inl (IndexError 1 (length (sizes (tensors s in_a)))) \<and>
      LLMM1 gemm in_a in_b out_c s =
        (Inl (IndexError (int (length (sizes (tensors s in_a))))
                (length (sizes (tensors s in_a)))), s))"
  by (simp add: tensor_size_0 tensor_size_1 tensor_size_1_fails LLMM1_reaches_kernel
      LLMM1_lookup_fails)

text \<open>The theorem at a \<open>[4, 8]\<close> tensor and at a \<open>[4]\<close> tensor.\<close>

theorem LLMM1_needs_two_dimensions_witness:
  "2 \<le> length (sizes (tensors (test_state [4, 8] kHalf) 0)) \<and>
   tensor_size (tensors (test_state [4, 8] kHalf) 0) 0 = Inr 4 \<and>
   tensor_size (tensors (test_state [4, 8] kHalf) 0) 1 = Inr 8 \<and>
   fst (LLMM1 stub_LLGemm1 0 1 2 (test_state [4, 8] kHalf)) = Inr () \<and>
   length (sizes (tensors (test_state [4] kHalf) 0)) < 2 \<and>
   tensor_size (tensors (test_state [4] kHalf) 0) 1 = Inl (IndexError 1 1) \<and>
   LLMM1 stub_LLGemm1 0 1 2 (test_state [4] kHalf) =
     (Inl (IndexError 1 1), test_state [4] kHalf) \<and>
   device (test_state [4] kHalf) = []"
  using LLMM1_needs_two_dimensions
    [where s = "test_state [4, 8] kHalf" and in_a = 0 and in_b = 1 and out_c = 2
       and gemm = stub_LLGemm1]
    LLMM1_needs_two_dimensions
    [where s = "test_state [4] kHalf" and in_a = 0 and in_b = 1 and out_c = 2
       and gemm = stub_LLGemm1]
  by (simp add: tensors_test_state)

subsection \<open>C10: the scalar types in \<open>MMCustomGPU\<close>\<close>




end
